theory Spec2Isabelle
  imports Complex_Main
begin

section \<open>Shared Python-level data\<close>

text \<open>
  Both components exchange JSON. A parsed JSON value is modelled by the datatype below;
  a \<open>JDict\<close> is a Python dict (insertion order, distinct keys). Fractional numbers
  are not modelled. Byte strings and text are both \<open>string\<close>.
\<close>

datatype json =
    JNull
  | JBool bool
  | JInt int
  | JStr string
  | JList "json list"
  | JDict "(string \<times> json) list"

type_synonym bytes = string

text \<open>The exceptions the two source files can raise, as values.\<close>

datatype py_error =
    KeyError string
  | TypeError
  | ValueError
  | IndexError
  | AttributeError
  | UnicodeDecodeError
  | JSONDecodeError
  | BinasciiError
  | UnidentifiedImageError
  | FileNotFoundError
  | RuntimeError
  | ClientError

text \<open>\<open>d[k]\<close> raises \<open>KeyError\<close> on a dict without the key and \<open>TypeError\<close> on
  a value that a string cannot index.\<close>

fun subscript :: "json \<Rightarrow> string \<Rightarrow> py_error + json" where
  "subscript (JDict kvs) k = (case map_of kvs k of None \<Rightarrow> Inl (KeyError k) | Some v \<Rightarrow> Inr v)"
| "subscript _ k = Inl TypeError"


text \<open>Iterating a value with \<open>for x in v\<close>: a list yields its items, a dict its keys,
  a string its characters; anything else is not iterable.\<close>

fun py_iter :: "json \<Rightarrow> py_error + json list" where
  "py_iter (JList xs) = Inr xs"
| "py_iter (JDict kvs) = Inr (map (\<lambda>kv. JStr (fst kv)) kvs)"
| "py_iter (JStr s) = Inr (map (\<lambda>c. JStr [c]) s)"
| "py_iter _ = Inl TypeError"


fun py_key :: "json \<Rightarrow> json" where
  "py_key (JBool b) = JInt (if b then 1 else 0)"
| "py_key v = v"

text \<open>\<open>os.path.join\<close> of two components and \<open>os.path.basename\<close>.\<close>

definition os_path_join :: "string \<Rightarrow> string \<Rightarrow> string" where
  "os_path_join a b =
     (if b \<noteq> [] \<and> hd b = CHR ''/'' then b
      else if a = [] \<or> last a = CHR ''/'' then a @ b
      else a @ ''/'' @ b)"


text \<open>The library calls both files make, taken as parameters: \<open>bytes.decode("utf-8")\<close>,
  \<open>json.loads\<close>, \<open>base64.b64decode\<close>, \<open>base64.b64encode(...).decode\<close> and
  \<open>Image.open(...).convert("RGB")\<close> on the bytes of a file.\<close>

record 'img py_lib =
  decode_utf8 :: "bytes \<Rightarrow> py_error + string"
  json_loads :: "string \<Rightarrow> py_error + json"
  b64decode :: "string \<Rightarrow> py_error + bytes"
  b64encode :: "bytes \<Rightarrow> string"
  image_open :: "bytes \<Rightarrow> py_error + 'img"

text \<open>\<open>json.loads\<close> and \<open>base64.b64decode\<close> applied to a value that came out of a
  dict: they accept a string and raise \<open>TypeError\<close> on anything else.\<close>

definition json_loads_value :: "('img, 'x) py_lib_scheme \<Rightarrow> json \<Rightarrow> py_error + json" where
  "json_loads_value env v = (case v of JStr s \<Rightarrow> json_loads env s | _ \<Rightarrow> Inl TypeError)"

definition b64decode_value :: "('img, 'x) py_lib_scheme \<Rightarrow> json \<Rightarrow> py_error + bytes" where
  "b64decode_value env v = (case v of JStr s \<Rightarrow> b64decode env s | _ \<Rightarrow> Inl TypeError)"

section \<open>Detection component (fd_component.py)\<close>

datatype queue_url = REQUEST_QUEUE_URL | RESPONSE_QUEUE_URL

datatype evt = Evt (binary_message: "bytes option")

text \<open>The lines the component prints, and the external calls it makes (a trace kept
  beside the state so that "no call was made" can be stated).\<close>

datatype fd_print =
    Print_received_event evt
  | Print_received_message json
  | Print_no_face json
  | Print_sent_no_face json
  | Print_sent_sqs json
  | Print_error py_error

datatype fd_call =
    Call_b64decode json
  | Call_face_detection_func string
  | Call_send_message queue_url json


text \<open>
  The state of one running instance: the global \<open>seen_req_ids\<close>, the local files, the
  two queues (the bodies delivered so far, oldest first; a body is kept as the value
  that \<open>json.dumps\<close> serialises), the printed lines and the trace of calls.
\<close>

record fd_state =
  seen_req_ids :: "json set"
  files :: "string \<rightharpoonup> bytes"
  request_queue :: "json list"
  response_queue :: "json list"
  stdout :: "fd_print list"
  calls :: "fd_call list"

definition py_print :: "fd_print \<Rightarrow> fd_state \<Rightarrow> fd_state" where
  "py_print l s = s\<lparr>stdout := stdout s @ [l]\<rparr>"









section \<open>Recognition component (fr_lambda.py)\<close>

text \<open>Python's \<open>min\<close> of a list (the first of the least items; \<open>ValueError\<close> on an
  empty list), \<open>list.index\<close> (the first position; \<open>ValueError\<close> when absent) and
  \<open>xs[i]\<close> for a non-negative index.\<close>

fun py_min :: "'a::linorder list \<Rightarrow> py_error + 'a" where
  "py_min [] = Inl ValueError"
| "py_min (x # xs) = Inr (foldl (\<lambda>m y. if y < m then y else m) x xs)"

fun py_index :: "'a list \<Rightarrow> 'a \<Rightarrow> py_error + nat" where
  "py_index [] v = Inl ValueError"
| "py_index (x # xs) v =
     (if x = v then Inr 0
      else case py_index xs v of Inl e \<Rightarrow> Inl e | Inr i \<Rightarrow> Inr (Suc i))"

definition py_getitem :: "'a list \<Rightarrow> nat \<Rightarrow> py_error + 'a" where
  "py_getitem xs i = (if i < length xs then Inr (xs ! i) else Inl IndexError)"

text \<open>Lines 40-42 of \<open>face_recognition_func\<close>: the distances to every database
  embedding, the index of the least one, and the name at that index. The distance
  \<open>torch.dist\<close> is a parameter with values in a linear order.\<close>

definition matcher ::
  "('emb \<Rightarrow> 'emb \<Rightarrow> 'd::linorder) \<Rightarrow> 'emb \<Rightarrow> 'emb list \<Rightarrow> string list \<Rightarrow> py_error + string" where
  "matcher d emb embedding_list name_list =
     (let dist_list = map (d emb) embedding_list in
      case py_min dist_list of
        Inl e \<Rightarrow> Inl e
      | Inr m \<Rightarrow>
     (case py_index dist_list m of
        Inl e \<Rightarrow> Inl e
      | Inr min_index \<Rightarrow> py_getitem name_list min_index))"

text \<open>\<open>torch.dist\<close> with its default \<open>p = 2\<close> on two vectors of the same shape, over
  the reals (rounding is not modelled).\<close>

definition euclidean :: "real list \<Rightarrow> real list \<Rightarrow> real" where
  "euclidean a b = sqrt (sum_list (map (\<lambda>p. (fst p - snd p)\<^sup>2) (zip a b)))"

text \<open>
  The environment of the recognition component: the library calls, the environment
  variable \<open>LAMBDA_TASK_ROOT\<close>, the conversion of the image to a tensor, \<open>torch.load\<close>
  of the weights file (the embeddings and the names), \<open>torch.jit.load\<close> of the model
  (a function from a tensor to an embedding that may raise), \<open>torch.dist\<close>, and
  \<open>sqs.send_message\<close> to \<open>RESPONSE_QUEUE_URL\<close> (\<open>Some e\<close>: the call, or the
  lookup of the queue URL in \<open>os.environ\<close> before it, raises \<open>e\<close> and nothing is
  enqueued). Calls of the logger are not modelled.
\<close>

record ('img, 'tensor, 'emb, 'd) fr_env = "'img py_lib" +
  LAMBDA_TASK_ROOT :: "string option"
  to_tensor :: "'img \<Rightarrow> 'tensor"
  torch_load :: "string \<Rightarrow> py_error + ('emb list \<times> string list)"
  torch_jit_load :: "string \<Rightarrow> py_error + ('tensor \<Rightarrow> py_error + 'emb)"
  torch_dist :: "'emb \<Rightarrow> 'emb \<Rightarrow> 'd"
  lambda_send_message :: "json \<Rightarrow> py_error option"

text \<open>The state of one processing context: its files, the bodies delivered to the
  response queue, and how often the database and the model have been loaded.\<close>

record fr_state =
  lambda_files :: "string \<rightharpoonup> bytes"
  lambda_response_queue :: "json list"
  torch_load_calls :: nat
  torch_jit_load_calls :: nat

definition face_recognition_func ::
  "('img, 'tensor, 'emb, 'd::linorder) fr_env \<Rightarrow> string \<Rightarrow> string \<Rightarrow> string \<Rightarrow> fr_state
     \<Rightarrow> (py_error + string option) \<times> fr_state" where
  "face_recognition_func env model_path model_wt_path face_img_path s =
     (case lambda_files s face_img_path of
        None \<Rightarrow> (Inl FileNotFoundError, s)
      | Some data \<Rightarrow>
     (case image_open env data of
        Inl e \<Rightarrow> (Inl e, s)
      | Inr face_pil \<Rightarrow>
     (let face_tensor = Some (to_tensor env face_pil);
          s1 = s\<lparr>torch_load_calls := Suc (torch_load_calls s)\<rparr>
      in
      case torch_load env model_wt_path of
        Inl e \<Rightarrow> (Inl e, s1)
      | Inr saved_data \<Rightarrow>
     (let s2 = s1\<lparr>torch_jit_load_calls := Suc (torch_jit_load_calls s1)\<rparr> in
      case torch_jit_load env model_path of
        Inl e \<Rightarrow> (Inl e, s2)
      | Inr resnet \<Rightarrow>
     (case face_tensor of
        Some t \<Rightarrow>
          (case resnet t of
             Inl e \<Rightarrow> (Inl e, s2)
           | Inr emb \<Rightarrow>
               (let embedding_list = fst saved_data;
                    name_list = snd saved_data
                in
                case matcher (torch_dist env) emb embedding_list name_list of
                  Inl e \<Rightarrow> (Inl e, s2)
                | Inr recognized_name \<Rightarrow> (Inr (Some recognized_name), s2)))
      | None \<Rightarrow> (Inr None, s2))))))"

text \<open>The body of the loop of \<open>async_handler\<close> (lines 60-85), for one record.\<close>

definition process_record ::
  "('img, 'tensor, 'emb, 'd::linorder) fr_env \<Rightarrow> string \<Rightarrow> string \<Rightarrow> json \<Rightarrow> fr_state
     \<Rightarrow> (py_error + unit) \<times> fr_state" where
  "process_record env model_path model_wt_path rec s =
     (case subscript rec ''body'' of
        Inl e \<Rightarrow> (Inl e, s)
      | Inr b \<Rightarrow>
     (case json_loads_value env b of
        Inl e \<Rightarrow> (Inl e, s)
      | Inr message_body \<Rightarrow>
     (case subscript message_body ''request_id'' of
        Inl e \<Rightarrow> (Inl e, s)
      | Inr request_id \<Rightarrow>
     (case subscript message_body ''face_image'' of
        Inl e \<Rightarrow> (Inl e, s)
      | Inr face_base64 \<Rightarrow>
     (case subscript message_body ''filename'' of
        Inl e \<Rightarrow> (Inl e, s)
      | Inr filename \<Rightarrow>
     (let temp_face_path = ''/tmp/face.jpg'' in
      case b64decode_value env face_base64 of
        Inl e \<Rightarrow> (Inl e, s\<lparr>lambda_files := (lambda_files s)(temp_face_path \<mapsto> [])\<rparr>)
      | Inr data \<Rightarrow>
     (let s1 = s\<lparr>lambda_files := (lambda_files s)(temp_face_path \<mapsto> data)\<rparr> in
      case face_recognition_func env model_path model_wt_path temp_face_path s1 of
        (Inl e, s2) \<Rightarrow> (Inl e, s2)
      | (Inr recognized_name, s2) \<Rightarrow>
          (let result_message =
                 JDict [(''request_id'', request_id),
                        (''result'',
                         JStr (case recognized_name of
                                 None \<Rightarrow> ''Unknown''
                               | Some n \<Rightarrow> if n = [] then ''Unknown'' else n))]
           in
           case lambda_send_message env result_message of
             Some e \<Rightarrow> (Inl e, s2)
           | None \<Rightarrow>
               (Inr (),
                s2\<lparr>lambda_response_queue :=
                     lambda_response_queue s2 @ [result_message]\<rparr>)))))))))"

text \<open>The loop itself: an exception of one record leaves the loop.\<close>

fun process_records ::
  "('img, 'tensor, 'emb, 'd::linorder) fr_env \<Rightarrow> string \<Rightarrow> string \<Rightarrow> json list \<Rightarrow> fr_state
     \<Rightarrow> (py_error + unit) \<times> fr_state" where
  "process_records env model_path model_wt_path [] s = (Inr (), s)"
| "process_records env model_path model_wt_path (rec # recs) s =
     (case process_record env model_path model_wt_path rec s of
        (Inl e, s1) \<Rightarrow> (Inl e, s1)
      | (Inr u, s1) \<Rightarrow> process_records env model_path model_wt_path recs s1)"

definition async_handler ::
  "('img, 'tensor, 'emb, 'd::linorder) fr_env \<Rightarrow> json \<Rightarrow> fr_state \<Rightarrow> (py_error + unit) \<times> fr_state" where
  "async_handler env event s =
     (let root = (case LAMBDA_TASK_ROOT env of None \<Rightarrow> '''' | Some r \<Rightarrow> r);
          model_path = os_path_join root ''resnetV1.pt'';
          model_wt_path = os_path_join root ''resnetV1_video_weights.pt''
      in
      case subscript event ''Records'' of
        Inl e \<Rightarrow> (Inl e, s)
      | Inr records \<Rightarrow>
     (case py_iter records of
        Inl e \<Rightarrow> (Inl e, s)
      | Inr recs \<Rightarrow> process_records env model_path model_wt_path recs s))"

text \<open>\<open>handler\<close>: status 200 when the loop ends, status 500 with the exception
  otherwise.\<close>

datatype message = Face_recognition_completed_successfully | Error_in_face_recognition py_error

record response =
  statusCode :: nat
  body :: message

definition handler ::
  "('img, 'tensor, 'emb, 'd::linorder) fr_env \<Rightarrow> json \<Rightarrow> fr_state \<Rightarrow> response \<times> fr_state" where
  "handler env event s =
     (case async_handler env event s of
        (Inr u, s1) \<Rightarrow> (\<lparr>statusCode = 200, body = Face_recognition_completed_successfully\<rparr>, s1)
      | (Inl e, s1) \<Rightarrow> (\<lparr>statusCode = 500, body = Error_in_face_recognition e\<rparr>, s1))"

section \<open>Proof support and concrete inputs\<close>

text \<open>What one delivery may do to the seen set and the queues: the seen set only grows,
  and either both queues stay as they are or exactly one message is appended to one of
  them, carrying a request id that was not in the seen set before and is in it after.\<close>

definition fd_step :: "fd_state \<Rightarrow> fd_state \<Rightarrow> bool" where
  "fd_step s s' \<longleftrightarrow>
     seen_req_ids s \<subseteq> seen_req_ids s' \<and>
     ((response_queue s' = response_queue s \<and> request_queue s' = request_queue s) \<or>
      (\<exists>m rid. subscript m ''request_id'' = Inr rid \<and>
         py_key rid \<notin> seen_req_ids s \<and> py_key rid \<in> seen_req_ids s' \<and>
         ((response_queue s' = response_queue s @ [m] \<and> request_queue s' = request_queue s) \<or>
          (response_queue s' = response_queue s \<and> request_queue s' = request_queue s @ [m]))))"



text \<open>A recognition environment for the examples, over a given database: embeddings
  are real vectors, the model maps every crop to the origin and raises on the crop
  \<open>degenerate\<close>; \<open>w1\<close> and \<open>w2\<close> are the bodies of two work items.\<close>

definition example_fr_env ::
  "real list list \<times> string list \<Rightarrow> (string, string, real list, real) fr_env" where
  "example_fr_env db =
     \<lparr>decode_utf8 = Inr,
      json_loads = (\<lambda>b.
        if b = ''w1'' then
          Inr (JDict [(''request_id'', JStr ''r1''), (''face_image'', JStr ''crop''),
                      (''filename'', JStr ''a.jpg'')])
        else if b = ''w2'' then
          Inr (JDict [(''request_id'', JStr ''r2''), (''face_image'', JStr ''degenerate''),
                      (''filename'', JStr ''b.jpg'')])
        else Inl JSONDecodeError),
      b64decode = Inr,
      b64encode = (\<lambda>b. b),
      image_open = Inr,
      LAMBDA_TASK_ROOT = Some ''/var/task'',
      to_tensor = (\<lambda>i. i),
      torch_load = (\<lambda>p. Inr db),
      torch_jit_load = (\<lambda>p. Inr (\<lambda>t. if t = ''degenerate'' then Inl RuntimeError else Inr [0])),
      torch_dist = euclidean,
      lambda_send_message = (\<lambda>m. None)\<rparr>"

definition example_db :: "real list list \<times> string list" where
  "example_db = ([[5], [1], [-1]], [''a'', ''b'', ''c''])"

definition example_event :: "string list \<Rightarrow> json" where
  "example_event bodies = JDict [(''Records'', JList (map (\<lambda>b. JDict [(''body'', JStr b)]) bodies))]"

definition fr_init :: fr_state where
  "fr_init =
     \<lparr>lambda_files = Map.empty, lambda_response_queue = [], torch_load_calls = 0,
      torch_jit_load_calls = 0\<rparr>"

section \<open>The matcher: minimum and first index\<close>

lemma foldl_min_fold:
  "foldl (\<lambda>m y. if y < m then y else m) a ys = fold min ys (a::'a::linorder)"
  by (induction ys arbitrary: a) (auto simp: min_def)

lemma py_min_Min: "py_min (x # xs) = Inr (Min (set (x # xs)))"
  by (simp only: py_min.simps foldl_min_fold Min.set_eq_fold)

lemma py_index_first:
  "v \<in> set xs \<Longrightarrow>
   \<exists>i. py_index xs v = Inr i \<and> i < length xs \<and> xs ! i = v \<and> (\<forall>j<i. xs ! j \<noteq> v)"
proof (induction xs)
  case Nil
  then show ?case by simp
next
  case (Cons x xs)
  show ?case
  proof (cases "x = v")
    case True
    then show ?thesis by simp
  next
    case False
    with Cons.prems have "v \<in> set xs" by simp
    from Cons.IH [OF this] obtain i where
      i: "py_index xs v = Inr i" "i < length xs" "xs ! i = v" "\<forall>j<i. xs ! j \<noteq> v"
      by blast
    have "\<forall>j<Suc i. (x # xs) ! j \<noteq> v"
    proof (intro allI impI)
      fix j assume "j < Suc i"
      then show "(x # xs) ! j \<noteq> v"
        using False i(4) by (cases j) auto
    qed
    with False i show ?thesis by auto
  qed
qed

lemma matcher_Nil: "matcher d e [] names = Inl ValueError"
  by (simp add: matcher_def)

lemma matcher_first_min:
  assumes ne: "embs \<noteq> []" and len: "length embs \<le> length names"
  shows "\<exists>i<length embs. matcher d e embs names = Inr (names ! i) \<and>
           (\<forall>j<length embs. d e (embs ! i) \<le> d e (embs ! j)) \<and>
           (\<forall>j<i. d e (embs ! i) < d e (embs ! j))"
proof -
  define ds where "ds = map (d e) embs"
  from ne have dne: "ds \<noteq> []" by (simp add: ds_def)
  then obtain x xs where dc: "ds = x # xs" by (cases ds) auto
  have m: "py_min ds = Inr (Min (set ds))"
    unfolding dc by (rule py_min_Min)
  have "Min (set ds) \<in> set ds"
    using dne by (intro Min_in) auto
  from py_index_first [OF this] obtain i where
    i: "py_index ds (Min (set ds)) = Inr i" "i < length ds" "ds ! i = Min (set ds)"
       "\<forall>j<i. ds ! j \<noteq> Min (set ds)"
    by blast
  have il: "i < length embs" using i(2) by (simp add: ds_def)
  have le: "ds ! i \<le> ds ! j" if "j < length ds" for j
    using that i(3) by (simp add: Min_le)
  have lt: "ds ! i < ds ! j" if "j < i" for j
  proof -
    from that i(2) have "j < length ds" by simp
    from le [OF this] i(4) that i(3) show ?thesis by (metis order_le_imp_less_or_eq)
  qed
  have g: "matcher d e embs names = Inr (names ! i)"
    using m i(1) il len by (simp add: matcher_def py_getitem_def ds_def [symmetric])
  have le': "\<forall>j<length embs. d e (embs ! i) \<le> d e (embs ! j)"
    using le il by (simp add: ds_def)
  have lt': "\<forall>j<i. d e (embs ! i) < d e (embs ! j)"
    using lt il by (simp add: ds_def)
  from il g le' lt' show ?thesis by blast
qed

lemma ex_matcher:
  "matcher euclidean [0] (fst example_db) (snd example_db) = Inr ''b''"
  by (simp add: matcher_def py_getitem_def euclidean_def example_db_def)

section \<open>Detection component: the dedup gate and the queues\<close>




lemma fd_step_print [simp]:
  "fd_step (py_print l s) s' = fd_step s s'"
  "fd_step s (py_print l s') = fd_step s s'"
  by (simp_all add: fd_step_def py_print_def)

lemma py_print_fields [simp]:
  "seen_req_ids (py_print l s) = seen_req_ids s"
  "files (py_print l s) = files s"
  "request_queue (py_print l s) = request_queue s"
  "response_queue (py_print l s) = response_queue s"
  "calls (py_print l s) = calls s"
  "stdout (py_print l s) = stdout s @ [l]"
  by (simp_all add: py_print_def)

















section \<open>Detection component: properties\<close>










section \<open>Recognition component: loads, errors and examples\<close>

lemma frf_not_None: "fst (face_recognition_func env mp mwp p s) \<noteq> Inr None"
  by (simp add: face_recognition_func_def Let_def split: option.splits sum.splits)

lemma frf_queue:
  "lambda_response_queue (snd (face_recognition_func env mp mwp p s)) = lambda_response_queue s"
  by (simp add: face_recognition_func_def Let_def split: option.splits sum.splits)

lemma frf_counts:
  "face_recognition_func env mp mwp p s = (Inr v, s') \<Longrightarrow>
   torch_load_calls s' = Suc (torch_load_calls s) \<and>
   torch_jit_load_calls s' = Suc (torch_jit_load_calls s)"
  by (auto simp: face_recognition_func_def Let_def split: option.splits sum.splits)

lemma process_record_counts:
  "process_record env mp mwp r s = (Inr u, s') \<Longrightarrow>
   torch_load_calls s' = Suc (torch_load_calls s) \<and>
   torch_jit_load_calls s' = Suc (torch_jit_load_calls s)"
  by (auto simp: process_record_def Let_def split: sum.splits prod.splits option.splits
        dest!: frf_counts)

lemma process_record_error_quiet:
  "process_record env mp mwp r s = (Inl e, s') \<Longrightarrow>
   lambda_response_queue s' = lambda_response_queue s"
proof -
  have q: "lambda_response_queue s2 = lambda_response_queue s1"
    if "face_recognition_func env mp mwp p s1 = (x, s2)" for p s1 x s2
    using frf_queue [where env = env and mp = mp and mwp = mwp and p = p and s = s1] that
    by simp
  show "process_record env mp mwp r s = (Inl e, s') \<Longrightarrow>
   lambda_response_queue s' = lambda_response_queue s"
    by (auto simp: process_record_def Let_def split: sum.splits prod.splits option.splits
        dest!: q)
qed

lemma process_records_counts:
  "process_records env mp mwp recs s = (Inr u, s') \<Longrightarrow>
   torch_load_calls s' = torch_load_calls s + length recs \<and>
   torch_jit_load_calls s' = torch_jit_load_calls s + length recs"
proof (induction recs arbitrary: s)
  case Nil
  then show ?case by simp
next
  case (Cons r recs)
  from Cons.prems obtain u1 s1 where
    1: "process_record env mp mwp r s = (Inr u1, s1)"
    and 2: "process_records env mp mwp recs s1 = (Inr u, s')"
    by (auto split: prod.splits sum.splits)
  from process_record_counts [OF 1] Cons.IH [OF 2] show ?case by simp
qed

lemma frf_empty_db:
  assumes "\<forall>p db. torch_load env p = Inr db \<longrightarrow> fst db = []"
  shows "\<exists>e. fst (face_recognition_func env mp mwp p s) = Inl e"
proof -
  have "matcher (torch_dist env) emb (fst db) (snd db) = Inl ValueError"
    if "torch_load env mwp = Inr db" for db emb
  proof -
    from assms that have "fst db = []" by blast
    then show ?thesis by (simp add: matcher_Nil)
  qed
  then show ?thesis
    by (auto simp: face_recognition_func_def Let_def split: option.splits sum.splits)
qed

lemma process_record_empty_db:
  assumes "\<forall>p db. torch_load env p = Inr db \<longrightarrow> fst db = []"
  shows "\<exists>e. fst (process_record env mp mwp r s) = Inl e"
proof -
  have q: "\<exists>e. x = Inl e"
    if "face_recognition_func env mp mwp p s1 = (x, s2)" for p s1 x s2
    using frf_empty_db [OF assms, where mp = mp and mwp = mwp and p = p and s = s1] that
    by simp
  show ?thesis
    by (auto simp: process_record_def Let_def split: sum.splits prod.splits option.splits
        dest!: q)
qed

lemma ex_process_w1:
  "process_record (example_fr_env example_db) mp mwp (JDict [(''body'', JStr ''w1'')]) s =
     (Inr (),
      s\<lparr>lambda_files := (lambda_files s)(''/tmp/face.jpg'' \<mapsto> ''crop''),
        lambda_response_queue :=
          lambda_response_queue s @ [JDict [(''request_id'', JStr ''r1''), (''result'', JStr ''b'')]],
        torch_load_calls := Suc (torch_load_calls s),
        torch_jit_load_calls := Suc (torch_jit_load_calls s)\<rparr>)"
  by (simp add: process_record_def face_recognition_func_def json_loads_value_def
        b64decode_value_def example_fr_env_def ex_matcher Let_def)

lemma ex_process_w2:
  "process_record (example_fr_env db) mp mwp (JDict [(''body'', JStr ''w2'')]) s =
     (Inl RuntimeError,
      s\<lparr>lambda_files := (lambda_files s)(''/tmp/face.jpg'' \<mapsto> ''degenerate''),
        torch_load_calls := Suc (torch_load_calls s),
        torch_jit_load_calls := Suc (torch_jit_load_calls s)\<rparr>)"
  by (simp add: process_record_def face_recognition_func_def json_loads_value_def
        b64decode_value_def example_fr_env_def Let_def)

lemma ex_process_w1_empty_label:
  "process_record (example_fr_env ([[1]], [''''])) mp mwp (JDict [(''body'', JStr ''w1'')]) s =
     (Inr (),
      s\<lparr>lambda_files := (lambda_files s)(''/tmp/face.jpg'' \<mapsto> ''crop''),
        lambda_response_queue :=
          lambda_response_queue s @
            [JDict [(''request_id'', JStr ''r1''), (''result'', JStr ''Unknown'')]],
        torch_load_calls := Suc (torch_load_calls s),
        torch_jit_load_calls := Suc (torch_jit_load_calls s)\<rparr>)"
  by (simp add: process_record_def face_recognition_func_def json_loads_value_def
        b64decode_value_def example_fr_env_def matcher_def py_getitem_def euclidean_def Let_def)

section \<open>Recognition component: properties\<close>

text \<open>
  Claim C2. For every embedding and every database with at least one embedding and a
  name for each embedding, the matcher (a function of its arguments, hence
  deterministic) computes the distance \<open>d emb x\<close> for every database embedding \<open>x\<close> and
  returns the name at an index \<open>i\<close> whose distance is least among all entries and
  strictly less than the distance of every earlier entry: the lowest index of the
  minimum. Here \<open>d\<close> is any distance with linearly ordered values; the source passes
  \<open>torch.dist\<close>, the Euclidean distance.
\<close>

theorem matcher_lowest_index_of_minimum:
  assumes "embedding_list \<noteq> []" and "length embedding_list \<le> length name_list"
  shows "\<exists>i<length embedding_list.
     matcher d emb embedding_list name_list = Inr (name_list ! i) \<and>
     (\<forall>j<length embedding_list. d emb (embedding_list ! i) \<le> d emb (embedding_list ! j)) \<and>
     (\<forall>j<i. d emb (embedding_list ! i) < d emb (embedding_list ! j))"
  using assms by (rule matcher_first_min)

text \<open>The theorem at a concrete input.\<close>

theorem matcher_lowest_index_of_minimum_witness:
  "fst example_db \<noteq> [] \<and>
   matcher euclidean [0] (fst example_db) (snd example_db) = Inr ''b'' \<and>
   euclidean [0] [1] = euclidean [0] [-1]"
proof -
  have 1: "fst example_db \<noteq> []" by (simp add: example_db_def)
  have 2: "length (fst example_db) \<le> length (snd example_db)" by (simp add: example_db_def)
  from matcher_lowest_index_of_minimum [OF 1 2, where d = euclidean and emb = "[0]"]
  obtain i where "matcher euclidean [0] (fst example_db) (snd example_db) = Inr (snd example_db ! i)"
    by blast
  then have "matcher euclidean [0] (fst example_db) (snd example_db) = Inr ''b''"
    by (simp add: ex_matcher)
  with 1 show ?thesis by (simp add: euclidean_def)
qed

text \<open>
  Claim C6. When the loaded database has no embeddings, the matcher raises
  \<open>ValueError\<close> whatever the names are, \<open>face_recognition_func\<close> returns no name and no
  \<open>None\<close> but raises, and \<open>handler\<close>, on a batch with at least one record, answers
  with status 500 and sends nothing to the response queue: no "Unknown" result is
  emitted.
\<close>

theorem empty_database_is_error:
  assumes "\<forall>p db. torch_load env p = Inr db \<longrightarrow> fst db = []"
    and "subscript event ''Records'' = Inr records" and "py_iter records = Inr (r # rs)"
  shows "matcher (torch_dist env) emb [] name_list = Inl ValueError \<and>
     (\<exists>e. fst (face_recognition_func env model_path model_wt_path face_img_path st) = Inl e) \<and>
     (\<exists>e. fst (handler env event s) =
             \<lparr>statusCode = 500, body = Error_in_face_recognition e\<rparr>) \<and>
     lambda_response_queue (snd (handler env event s)) = lambda_response_queue s"
proof -
  define mp where
    "mp = os_path_join (case LAMBDA_TASK_ROOT env of None \<Rightarrow> '''' | Some x \<Rightarrow> x) ''resnetV1.pt''"
  define mwp where
    "mwp = os_path_join (case LAMBDA_TASK_ROOT env of None \<Rightarrow> '''' | Some x \<Rightarrow> x)
             ''resnetV1_video_weights.pt''"
  from process_record_empty_db [OF assms(1)] obtain e where
    "fst (process_record env mp mwp r s) = Inl e" by blast
  then obtain s1 where pr: "process_record env mp mwp r s = (Inl e, s1)"
    by (cases "process_record env mp mwp r s") simp
  have ah: "async_handler env event s = (Inl e, s1)"
    using assms(2,3) pr by (simp add: async_handler_def Let_def mp_def mwp_def)
  then have h: "handler env event s =
      (\<lparr>statusCode = 500, body = Error_in_face_recognition e\<rparr>, s1)"
    by (simp add: handler_def)
  from process_record_error_quiet [OF pr]
  have q: "lambda_response_queue s1 = lambda_response_queue s" .
  from h q frf_empty_db [OF assms(1)] show ?thesis
    by (simp add: matcher_Nil)
qed

text \<open>The theorem at a concrete input.\<close>

theorem empty_database_is_error_witness:
  "statusCode (fst (handler (example_fr_env ([], [])) (example_event [''w1'']) fr_init)) = 500 \<and>
   lambda_response_queue (snd (handler (example_fr_env ([], [])) (example_event [''w1'']) fr_init))
     = []"
proof -
  have 1: "\<forall>p db. torch_load (example_fr_env ([], [])) p = Inr db \<longrightarrow> fst db = []"
    by (auto simp: example_fr_env_def)
  have 2: "subscript (example_event [''w1'']) ''Records'' = Inr (JList [JDict [(''body'', JStr ''w1'')]])"
    by (simp add: example_event_def)
  have 3: "py_iter (JList [JDict [(''body'', JStr ''w1'')]]) = Inr (JDict [(''body'', JStr ''w1'')] # [])"
    by simp
  from empty_database_is_error [OF 1 2 3, where s = fr_init and emb = "[0]" and name_list = "[]"
      and model_path = "''m''" and model_wt_path = "''w''" and face_img_path = "''f''"
      and st = fr_init]
  obtain e where
    "fst (handler (example_fr_env ([], [])) (example_event [''w1'']) fr_init) =
       \<lparr>statusCode = 500, body = Error_in_face_recognition e\<rparr>"
    and "lambda_response_queue
           (snd (handler (example_fr_env ([], [])) (example_event [''w1'']) fr_init)) =
         lambda_response_queue fr_init"
    by blast
  then show ?thesis by (simp add: fr_init_def)
qed

text \<open>
  Claim C7, as amended. \<open>face_recognition_func\<close> calls \<open>torch.load\<close> and
  \<open>torch.jit.load\<close> itself, so the database and the model are loaded once per work
  item: a handler invocation that processes a batch of \<open>n\<close> records to the end (status
  200) has loaded the database \<open>n\<close> times and the model \<open>n\<close> times.
\<close>

theorem loaded_once_per_work_item:
  assumes "subscript event ''Records'' = Inr (JList recs)"
    and "handler env event s = (resp, s')" and "statusCode resp = 200"
  shows "torch_load_calls s' = torch_load_calls s + length recs \<and>
     torch_jit_load_calls s' = torch_jit_load_calls s + length recs"
proof -
  obtain x s1 where ah: "async_handler env event s = (x, s1)"
    by (cases "async_handler env event s") simp
  with assms(2,3) obtain u where x: "x = Inr u" and s1: "s1 = s'"
    by (cases x) (auto simp: handler_def)
  from ah x s1 assms(1) obtain mp mwp where
    "process_records env mp mwp recs s = (Inr u, s')"
    by (auto simp: async_handler_def Let_def)
  from process_records_counts [OF this] show ?thesis .
qed

text \<open>The theorem at a concrete input.\<close>

theorem loaded_once_per_work_item_witness:
  "torch_load_calls
     (snd (handler (example_fr_env example_db) (example_event [''w1'', ''w1'']) fr_init)) = 2 \<and>
   torch_jit_load_calls
     (snd (handler (example_fr_env example_db) (example_event [''w1'', ''w1'']) fr_init)) = 2"
proof -
  let ?h = "handler (example_fr_env example_db) (example_event [''w1'', ''w1'']) fr_init"
  have 1: "subscript (example_event [''w1'', ''w1'']) ''Records'' =
      Inr (JList [JDict [(''body'', JStr ''w1'')], JDict [(''body'', JStr ''w1'')]])"
    by (simp add: example_event_def)
  have 2: "?h = (fst ?h, snd ?h)" by simp
  have 3: "statusCode (fst ?h) = 200"
    by (simp add: handler_def async_handler_def example_event_def ex_process_w1 Let_def)
  from loaded_once_per_work_item [OF 1 2 3] show ?thesis by (simp add: fr_init_def)
qed

text \<open>The claim as stated (at most one load per invocation) fails on a batch of two
  work items: the database is loaded twice.\<close>

theorem loaded_once_per_context_counterexample:
  "\<not> torch_load_calls
        (snd (handler (example_fr_env example_db) (example_event [''w1'', ''w1'']) fr_init)) \<le> 1"
  by (simp add: handler_def async_handler_def example_event_def ex_process_w1 fr_init_def Let_def)

text \<open>
  Claim C10, as amended. \<open>face_recognition_func\<close> never returns \<open>None\<close>: the branch for
  a missing tensor is unreachable. For a well-formed record whose face image decodes
  and opens, if the database loads with at least one embedding and a name for each,
  the model loads and returns an embedding, and the publish does not raise, then
  \<open>process_record\<close> returns normally and appends exactly one result to the response
  queue: the name at the lowest index of the minimum distance, written \<open>Unknown\<close>
  when that name is the empty string.
\<close>

theorem decodable_crop_gets_label:
  assumes "subscript rec ''body'' = Inr (JStr b)" and "json_loads env b = Inr message_body"
    and "subscript message_body ''request_id'' = Inr request_id"
    and "subscript message_body ''face_image'' = Inr (JStr face_base64)"
    and "subscript message_body ''filename'' = Inr filename"
    and "b64decode env face_base64 = Inr data" and "image_open env data = Inr face_pil"
    and "torch_load env model_wt_path = Inr (embedding_list, name_list)"
    and "embedding_list \<noteq> []" and "length embedding_list \<le> length name_list"
    and "torch_jit_load env model_path = Inr resnet"
    and "resnet (to_tensor env face_pil) = Inr emb"
    and "\<forall>m. lambda_send_message env m = None"
  shows "fst (face_recognition_func env model_path model_wt_path face_img_path st) \<noteq> Inr None \<and>
     (\<exists>i<length embedding_list.
        (\<forall>j<length embedding_list.
           torch_dist env emb (embedding_list ! i) \<le> torch_dist env emb (embedding_list ! j)) \<and>
        (\<forall>j<i. torch_dist env emb (embedding_list ! i) < torch_dist env emb (embedding_list ! j)) \<and>
        fst (process_record env model_path model_wt_path rec s) = Inr () \<and>
        lambda_response_queue (snd (process_record env model_path model_wt_path rec s)) =
          lambda_response_queue s @
            [JDict [(''request_id'', request_id),
                    (''result'',
                     JStr (if name_list ! i = [] then ''Unknown'' else name_list ! i))]])"
proof -
  from matcher_first_min [OF assms(9,10), where d = "torch_dist env" and e = emb]
  obtain i where i: "i < length embedding_list"
    and m: "matcher (torch_dist env) emb embedding_list name_list = Inr (name_list ! i)"
    and le: "\<forall>j<length embedding_list.
           torch_dist env emb (embedding_list ! i) \<le> torch_dist env emb (embedding_list ! j)"
    and lt: "\<forall>j<i. torch_dist env emb (embedding_list ! i) < torch_dist env emb (embedding_list ! j)"
    by blast
  have "fst (process_record env model_path model_wt_path rec s) = Inr () \<and>
        lambda_response_queue (snd (process_record env model_path model_wt_path rec s)) =
          lambda_response_queue s @
            [JDict [(''request_id'', request_id),
                    (''result'',
                     JStr (if name_list ! i = [] then ''Unknown'' else name_list ! i))]]"
    using assms(1-8) assms(11-13) m
    by (simp add: process_record_def face_recognition_func_def json_loads_value_def
          b64decode_value_def Let_def)
  with i le lt have "\<exists>i<length embedding_list.
        (\<forall>j<length embedding_list.
           torch_dist env emb (embedding_list ! i) \<le> torch_dist env emb (embedding_list ! j)) \<and>
        (\<forall>j<i. torch_dist env emb (embedding_list ! i) < torch_dist env emb (embedding_list ! j)) \<and>
        fst (process_record env model_path model_wt_path rec s) = Inr () \<and>
        lambda_response_queue (snd (process_record env model_path model_wt_path rec s)) =
          lambda_response_queue s @
            [JDict [(''request_id'', request_id),
                    (''result'',
                     JStr (if name_list ! i = [] then ''Unknown'' else name_list ! i))]]"
    by (intro exI [of _ i]) simp
  with frf_not_None show ?thesis by blast
qed

text \<open>The theorem at a concrete input.\<close>

theorem decodable_crop_gets_label_witness:
  "fst (process_record (example_fr_env example_db) ''m'' ''w'' (JDict [(''body'', JStr ''w1'')])
          fr_init) = Inr () \<and>
   lambda_response_queue
     (snd (process_record (example_fr_env example_db) ''m'' ''w'' (JDict [(''body'', JStr ''w1'')])
            fr_init)) =
   [JDict [(''request_id'', JStr ''r1''), (''result'', JStr ''b'')]]"
proof -
  let ?env = "example_fr_env example_db"
  let ?mb = "JDict [(''request_id'', JStr ''r1''), (''face_image'', JStr ''crop''),
                      (''filename'', JStr ''a.jpg'')]"
  have 1: "subscript (JDict [(''body'', JStr ''w1'')]) ''body'' = Inr (JStr ''w1'')" by simp
  have 2: "json_loads ?env ''w1'' = Inr ?mb" by (simp add: example_fr_env_def)
  have 3: "subscript ?mb ''request_id'' = Inr (JStr ''r1'')" by simp
  have 4: "subscript ?mb ''face_image'' = Inr (JStr ''crop'')" by simp
  have 5: "subscript ?mb ''filename'' = Inr (JStr ''a.jpg'')" by simp
  have 6: "b64decode ?env ''crop'' = Inr ''crop''" by (simp add: example_fr_env_def)
  have 7: "image_open ?env ''crop'' = Inr ''crop''" by (simp add: example_fr_env_def)
  have 8: "torch_load ?env ''w'' = Inr ([[5], [1], [-1]], [''a'', ''b'', ''c''])"
    by (simp add: example_fr_env_def example_db_def)
  have 9: "[[5], [1], [-1::real]] \<noteq> []" by simp
  have 10: "length [[5], [1], [-1::real]] \<le> length [''a'', ''b'', ''c'']" by simp
  have 11: "torch_jit_load ?env ''m'' =
      Inr (\<lambda>t. if t = ''degenerate'' then Inl RuntimeError else Inr [0])"
    by (simp add: example_fr_env_def)
  have 12: "(\<lambda>t. if t = ''degenerate'' then Inl RuntimeError else Inr [0::real])
              (to_tensor ?env ''crop'') = Inr [0]"
    by (simp add: example_fr_env_def)
  have 13: "\<forall>m. lambda_send_message ?env m = None" by (simp add: example_fr_env_def)
  from decodable_crop_gets_label [OF 1 2 3 4 5 6 7 8 9 10 11 12 13, where s = fr_init]
  have "\<exists>i. fst (process_record ?env ''m'' ''w'' (JDict [(''body'', JStr ''w1'')]) fr_init) = Inr ()"
    by blast
  then show ?thesis by (simp add: ex_process_w1 fr_init_def)
qed

text \<open>The claim as stated (never "Unknown" for a decodable crop and a non-empty
  database) fails when the matched name is empty: the crop opens, the database has one
  entry, and the result sent is \<open>Unknown\<close>, which is not a name of the database.\<close>

theorem never_unknown_counterexample:
  "image_open (example_fr_env ([[1]], [''''])) ''crop'' = Inr ''crop'' \<and>
   ''Unknown'' \<notin> set [''''] \<and>
   lambda_response_queue
     (snd (handler (example_fr_env ([[1]], [''''])) (example_event [''w1'']) fr_init)) =
   [JDict [(''request_id'', JStr ''r1''), (''result'', JStr ''Unknown'')]]"
  by (simp add: handler_def async_handler_def example_event_def ex_process_w1_empty_label
        fr_init_def Let_def)
     (simp add: example_fr_env_def)

text \<open>
  Claim C4, evaluated on a batch of two work items of which the first has a crop the
  model raises on: the handler answers with status 500 and the response queue stays
  empty, so neither an "Unknown" result for the first item nor the result of the
  second is sent. The second item alone is processed and gets the result \<open>b\<close>.
\<close>

theorem embedding_failure_aborts_batch:
  "fst (handler (example_fr_env example_db) (example_event [''w2'', ''w1'']) fr_init) =
     \<lparr>statusCode = 500, body = Error_in_face_recognition RuntimeError\<rparr> \<and>
   lambda_response_queue
     (snd (handler (example_fr_env example_db) (example_event [''w2'', ''w1'']) fr_init)) = [] \<and>
   lambda_response_queue
     (snd (handler (example_fr_env example_db) (example_event [''w1'']) fr_init)) =
     [JDict [(''request_id'', JStr ''r1''), (''result'', JStr ''b'')]]"
  by (simp add: handler_def async_handler_def example_event_def ex_process_w1 ex_process_w2
        fr_init_def Let_def)

text \<open>
  Claim C1, evaluated on a batch of one work item with the file name \<open>a.jpg\<close>: the
  result the recognition component sends has the keys \<open>request_id\<close> and \<open>result\<close>
  only; the file name of the work item is not in it.
\<close>

theorem recognition_result_without_filename:
  "json_loads (example_fr_env example_db) ''w1'' =
     Inr (JDict [(''request_id'', JStr ''r1''), (''face_image'', JStr ''crop''),
                 (''filename'', JStr ''a.jpg'')]) \<and>
   lambda_response_queue
     (snd (handler (example_fr_env example_db) (example_event [''w1'']) fr_init)) =
     [JDict [(''request_id'', JStr ''r1''), (''result'', JStr ''b'')]] \<and>
   subscript (JDict [(''request_id'', JStr ''r1''), (''result'', JStr ''b'')]) ''filename'' =
     Inl (KeyError ''filename'')"
  by (simp add: handler_def async_handler_def example_event_def ex_process_w1
        fr_init_def Let_def)
     (simp add: example_fr_env_def)

end
